theory Spec2Isabelle
  imports Complex_Main
begin

section \<open>JavaScript values, errors and promises\<close>

text \<open>
  The hooks read the parsed bodies of HTTP responses, which TypeScript types as \<open>any\<close>.
  They are modelled as dynamically typed JSON values, with \<open>undefined\<close> for a property
  that is not there. An object keeps its properties as an association list that is read
  with \<open>map_of\<close>.
\<close>

datatype jsval =
    JUndefined
  | JNull
  | JBool bool
  | JNum rat
  | JStr string
  | JArr "jsval list"
  | JObj "(string \<times> jsval) list"

text \<open>
  A thrown value is an \<open>Error\<close> object (name and message) or any other value; the
  handlers of the hooks tell them apart with \<open>err instanceof Error\<close>.
\<close>

datatype js_error = JsError (err_name: string) (err_message: string) | Thrown jsval

text \<open>How the promise returned by an \<open>async\<close> function settles.\<close>

datatype 'a settled = Resolved 'a | Rejected js_error

type_synonym 'a attempt = "js_error + 'a"

text \<open>
  What the JavaScript engine supplies and the repository does not: the platform the app
  runs on, the decimal rendering of a number (\<open>Number.prototype.toString\<close>, which works
  on floating point) and the message of the \<open>TypeError\<close> raised by a property read on
  \<open>null\<close> or \<open>undefined\<close> (its wording differs between engines).
\<close>

datatype platform = Web | Ios | Android

record runtime =
  platform_os :: platform
  number_to_string :: "rat \<Rightarrow> string"
  type_error_message :: "jsval \<Rightarrow> string \<Rightarrow> string"

definition nullish :: "jsval \<Rightarrow> bool" where
  "nullish v = (v = JUndefined \<or> v = JNull)"

text \<open>
  \<open>v.k\<close> for the property names the program uses (\<open>status\<close>, \<open>text\<close>, \<open>error\<close>,
  \<open>id\<close>, \<open>upload_url\<close>, \<open>choices\<close>, \<open>message\<close>, \<open>content\<close>, \<open>transcription\<close>,
  \<open>summary\<close>): none of them is a built-in property of a string, number, boolean or
  array, so only an object can hold one, and \<open>null\<close> and \<open>undefined\<close> throw.
\<close>

definition get_prop :: "runtime \<Rightarrow> jsval \<Rightarrow> string \<Rightarrow> jsval attempt" where
  "get_prop rt v k =
     (if nullish v then Inl (JsError ''TypeError'' (type_error_message rt v k))
      else case v of
             JObj kvs \<Rightarrow> (case map_of kvs k of None \<Rightarrow> Inr JUndefined | Some x \<Rightarrow> Inr x)
           | _ \<Rightarrow> Inr JUndefined)"

text \<open>\<open>v?.k\<close>: optional chaining short-circuits on \<open>null\<close> and \<open>undefined\<close>.\<close>

definition opt_prop :: "runtime \<Rightarrow> jsval \<Rightarrow> string \<Rightarrow> jsval attempt" where
  "opt_prop rt v k = (if nullish v then Inr JUndefined else get_prop rt v k)"

text \<open>\<open>v[0]\<close>: the first element of an array, the first character of a string.\<close>

definition get_first :: "runtime \<Rightarrow> jsval \<Rightarrow> jsval attempt" where
  "get_first rt v =
     (if nullish v then Inl (JsError ''TypeError'' (type_error_message rt v ''0''))
      else case v of
             JArr xs \<Rightarrow> (case xs of [] \<Rightarrow> Inr JUndefined | x # _ \<Rightarrow> Inr x)
           | JStr s \<Rightarrow> (case s of [] \<Rightarrow> Inr JUndefined | c # _ \<Rightarrow> Inr (JStr [c]))
           | JObj kvs \<Rightarrow> (case map_of kvs ''0'' of None \<Rightarrow> Inr JUndefined | Some x \<Rightarrow> Inr x)
           | _ \<Rightarrow> Inr JUndefined)"

text \<open>Truthiness, as \<open>!v\<close> and \<open>v || d\<close> test it.\<close>

fun truthy :: "jsval \<Rightarrow> bool" where
  "truthy JUndefined = False"
| "truthy JNull = False"
| "truthy (JBool b) = b"
| "truthy (JNum r) = (r \<noteq> 0)"
| "truthy (JStr s) = (s \<noteq> [])"
| "truthy (JArr xs) = True"
| "truthy (JObj kvs) = True"

definition js_or :: "jsval \<Rightarrow> jsval \<Rightarrow> jsval" where
  "js_or v d = (if truthy v then v else d)"

fun join_commas :: "string list \<Rightarrow> string" where
  "join_commas [] = []"
| "join_commas [s] = s"
| "join_commas (s # t # ss) = s @ '','' @ join_commas (t # ss)"

text \<open>
  String conversion, as string concatenation and template literals do it. An array joins
  its elements with commas, \<open>null\<close> and \<open>undefined\<close> elements giving the empty string.
\<close>

fun to_string :: "runtime \<Rightarrow> jsval \<Rightarrow> string" where
  "to_string rt JUndefined = ''undefined''"
| "to_string rt JNull = ''null''"
| "to_string rt (JBool b) = (if b then ''true'' else ''false'')"
| "to_string rt (JNum r) = number_to_string rt r"
| "to_string rt (JStr s) = s"
| "to_string rt (JArr xs) =
     join_commas (map (\<lambda>x. if nullish x then [] else to_string rt x) xs)"
| "to_string rt (JObj kvs) = ''[object Object]''"

text \<open>Decimal digits of an HTTP status code, for \<open>`${response.status}`\<close>.\<close>

definition digit :: "nat \<Rightarrow> char" where
  "digit d = ''0123456789'' ! d"

fun decimal :: "nat \<Rightarrow> string" where
  "decimal n = (if n < 10 then [digit n] else decimal (n div 10) @ [digit (n mod 10)])"

section \<open>The network\<close>

datatype blob = Blob (blob_bytes: "nat list") (blob_type: string)

datatype req_body = NoBody | BlobBody blob | JsonBody jsval

record request =
  url :: string
  http_method :: string
  headers :: "(string \<times> string) list"
  body :: req_body

text \<open>
  A response: its status code and what reading the body as a blob, as text and as JSON
  gives (each read can fail). \<open>ok\<close> is the Fetch standard's: a status in 200..299.
\<close>

record response =
  status :: nat
  blob_of :: "blob attempt"
  text_of :: "string attempt"
  json_of :: "jsval attempt"

definition ok :: "response \<Rightarrow> bool" where
  "ok p = (200 \<le> status p \<and> status p \<le> 299)"

datatype fetch_result = NetworkFailure js_error | Response response

text \<open>
  The world outside: \<open>fetch w n q\<close> is the result of the call to \<open>fetch\<close> with request
  \<open>q\<close> when \<open>n\<close> calls were made before it, so that a job can change status between two
  identical polls. The bearer tokens are configuration.
\<close>

record world =
  engine :: runtime
  fetch :: "nat \<Rightarrow> request \<Rightarrow> fetch_result"
  assemblyai_key :: string
  openrouter_key :: string

datatype event = Fetch request | Wait nat

record run =
  calls :: nat
  trace :: "event list"

definition start :: run where
  "start = \<lparr>calls = 0, trace = []\<rparr>"

definition do_fetch :: "world \<Rightarrow> run \<Rightarrow> request \<Rightarrow> fetch_result \<times> run" where
  "do_fetch w r q = (fetch w (calls r) q, \<lparr>calls = Suc (calls r), trace = trace r @ [Fetch q]\<rparr>)"


section \<open>The transcription client (useSpeechToText)\<close>


definition blob_request :: "string \<Rightarrow> request" where
  "blob_request audioUri = \<lparr>url = audioUri, http_method = ''GET'', headers = [], body = NoBody\<rparr>"

definition upload_request :: "world \<Rightarrow> blob \<Rightarrow> request" where
  "upload_request w fileBlob =
     \<lparr>url = ''https://api.assemblyai.com/v2/upload'', http_method = ''POST'',
      headers = [(''Authorization'', assemblyai_key w), (''Transfer-Encoding'', ''chunked'')],
      body = BlobBody fileBlob\<rparr>"

text \<open>
  The body is the object handed to \<open>JSON.stringify\<close> (which leaves out a property whose
  value is \<open>undefined\<close>).
\<close>

definition submit_request :: "world \<Rightarrow> jsval \<Rightarrow> request" where
  "submit_request w audioUrl =
     \<lparr>url = ''https://api.assemblyai.com/v2/transcript'', http_method = ''POST'',
      headers = [(''Authorization'', assemblyai_key w), (''Content-Type'', ''application/json'')],
      body = JsonBody (JObj [(''audio_url'', audioUrl)])\<rparr>"

definition poll_request :: "world \<Rightarrow> jsval \<Rightarrow> request" where
  "poll_request w ident =
     \<lparr>url = ''https://api.assemblyai.com/v2/transcript/'' @ to_string (engine w) ident,
      http_method = ''GET'', headers = [(''Authorization'', assemblyai_key w)], body = NoBody\<rparr>"






text \<open>\<open>err instanceof Error ? err.message : fallback\<close>\<close>

definition message_or :: "string \<Rightarrow> js_error \<Rightarrow> string" where
  "message_or fallback err = (case err of JsError n m \<Rightarrow> m | Thrown v \<Rightarrow> fallback)"


subsection \<open>Scenarios of a transcription\<close>

text \<open>
  The statements below describe a world by what its first exchanges give. The blob is
  read by call 0, the upload is call 1, the submission call 2, the polls follow.
\<close>

definition audio_read :: "world \<Rightarrow> string \<Rightarrow> blob \<Rightarrow> bool" where
  "audio_read w audioUri fileBlob =
     (case fetch w 0 (blob_request audioUri) of
        NetworkFailure e \<Rightarrow> False
      | Response resp \<Rightarrow> blob_of resp = Inr fileBlob)"

definition audio_unreadable :: "world \<Rightarrow> string \<Rightarrow> bool" where
  "audio_unreadable w audioUri =
     (case fetch w 0 (blob_request audioUri) of
        NetworkFailure e \<Rightarrow> True
      | Response resp \<Rightarrow> (case blob_of resp of Inl e \<Rightarrow> True | Inr b \<Rightarrow> False))"

definition upload_accepted :: "world \<Rightarrow> blob \<Rightarrow> jsval \<Rightarrow> bool" where
  "upload_accepted w fileBlob audioUrl =
     (case fetch w 1 (upload_request w fileBlob) of
        NetworkFailure e \<Rightarrow> False
      | Response uploadRes \<Rightarrow>
          ok uploadRes \<and>
          (case json_of uploadRes of
             Inl e \<Rightarrow> False
           | Inr uploadData \<Rightarrow> get_prop (engine w) uploadData ''upload_url'' = Inr audioUrl))"

text \<open>The upload answers with a non-success status and the body \<open>errText\<close>.\<close>

definition upload_refused :: "world \<Rightarrow> blob \<Rightarrow> string attempt \<Rightarrow> bool" where
  "upload_refused w fileBlob errText =
     (case fetch w 1 (upload_request w fileBlob) of
        NetworkFailure e \<Rightarrow> False
      | Response uploadRes \<Rightarrow> \<not> ok uploadRes \<and> text_of uploadRes = errText)"

definition job_submitted :: "world \<Rightarrow> jsval \<Rightarrow> jsval \<Rightarrow> bool" where
  "job_submitted w audioUrl data =
     (case fetch w 2 (submit_request w audioUrl) of
        NetworkFailure e \<Rightarrow> False
      | Response res \<Rightarrow> ok res \<and> json_of res = Inr data)"

definition submit_refused :: "world \<Rightarrow> jsval \<Rightarrow> bool" where
  "submit_refused w audioUrl =
     (case fetch w 2 (submit_request w audioUrl) of
        NetworkFailure e \<Rightarrow> False
      | Response res \<Rightarrow> \<not> ok res)"

text \<open>The loop goes on: the status can be read and is neither terminal one.\<close>

definition pending :: "world \<Rightarrow> jsval \<Rightarrow> bool" where
  "pending w td =
     (case get_prop (engine w) td ''status'' of
        Inl e \<Rightarrow> False
      | Inr s \<Rightarrow> s \<noteq> JStr ''completed'' \<and> s \<noteq> JStr ''error'')"

definition has_status :: "world \<Rightarrow> jsval \<Rightarrow> string \<Rightarrow> bool" where
  "has_status w td s = (get_prop (engine w) td ''status'' = Inr (JStr s))"

definition poll_gives :: "world \<Rightarrow> nat \<Rightarrow> jsval \<Rightarrow> jsval \<Rightarrow> bool" where
  "poll_gives w c ident td =
     (case fetch w c (poll_request w ident) of
        NetworkFailure e \<Rightarrow> False
      | Response pollRes \<Rightarrow> json_of pollRes = Inr td)"







subsection \<open>Scripted worlds\<close>

definition test_engine :: runtime where
  "test_engine =
     \<lparr>platform_os = Web, number_to_string = (\<lambda>r. ''0''),
      type_error_message = (\<lambda>v k. ''Cannot read properties'')\<rparr>"

text \<open>A world that answers the calls from a list, and fails once the list is used up.\<close>

definition scripted :: "fetch_result list \<Rightarrow> world" where
  "scripted rs =
     \<lparr>engine = test_engine,
      fetch = (\<lambda>n q. if n < length rs then rs ! n
                      else NetworkFailure (JsError ''TypeError'' ''Network request failed'')),
      assemblyai_key = ''key-a'', openrouter_key = ''key-o''\<rparr>"

definition json_response :: "nat \<Rightarrow> jsval \<Rightarrow> fetch_result" where
  "json_response code v =
     Response \<lparr>status = code, blob_of = Inr (Blob [] ''application/json''),
               text_of = Inr [], json_of = Inr v\<rparr>"

definition text_response :: "nat \<Rightarrow> string \<Rightarrow> fetch_result" where
  "text_response code txt =
     Response \<lparr>status = code, blob_of = Inr (Blob [] ''text/plain''),
               text_of = Inr txt, json_of = Inl (JsError ''SyntaxError'' ''Unexpected token'')\<rparr>"

definition audio_blob :: blob where
  "audio_blob = Blob [26, 69, 223, 163] ''audio/webm''"

definition audio_response :: fetch_result where
  "audio_response =
     Response \<lparr>status = 200, blob_of = Inr audio_blob, text_of = Inr [],
               json_of = Inl (JsError ''SyntaxError'' ''Unexpected token'')\<rparr>"

definition uploaded :: fetch_result where
  "uploaded = json_response 200 (JObj [(''upload_url'', JStr ''https://cdn.example/u1'')])"

definition job :: "string \<Rightarrow> (string \<times> jsval) list \<Rightarrow> jsval" where
  "job s props = JObj ([(''id'', JStr ''job1''), (''status'', JStr s)] @ props)"





definition offline :: world where
  "offline = scripted []"


section \<open>The summarization client (useSummary)\<close>

record summary_state =
  isGeneratingSummary :: bool
  summary_error :: "string option"

definition system_instruction :: string where
  "system_instruction =
     ''You are a helpful assistant that creates concise, clear summaries. '' @
     ''Summarize the following text in 2-3 sentences, capturing the main points and key information.''"

text \<open>The template literal of the user message: the prefix, two line feeds, the text.\<close>

definition user_prompt :: "string \<Rightarrow> string" where
  "user_prompt text = ''Please summarize this text:'' @ [CHR 0x0A, CHR 0x0A] @ text"

definition messages :: "string \<Rightarrow> jsval" where
  "messages text =
     JArr [JObj [(''role'', JStr ''system''), (''content'', JStr system_instruction)],
           JObj [(''role'', JStr ''user''), (''content'', JStr (user_prompt text))]]"

definition summary_request :: "world \<Rightarrow> string \<Rightarrow> request" where
  "summary_request w text =
     \<lparr>url = ''https://openrouter.ai/api/v1/chat/completions'', http_method = ''POST'',
      headers = [(''Content-Type'', ''application/json''),
                 (''Authorization'', ''Bearer '' @ openrouter_key w)],
      body = JsonBody (JObj [(''model'', JStr ''openai/chatgpt-4o-latest''),
                             (''messages'', messages text),
                             (''max_tokens'', JNum 150),
                             (''temperature'', JNum (3 / 10))])\<rparr>"

text \<open>\<open>data.choices[0]?.message?.content\<close>\<close>

definition first_content :: "runtime \<Rightarrow> jsval \<Rightarrow> jsval attempt" where
  "first_content rt data =
     (case get_prop rt data ''choices'' of
        Inl e \<Rightarrow> Inl e
      | Inr choices \<Rightarrow>
          (case get_first rt choices of
             Inl e \<Rightarrow> Inl e
           | Inr choice \<Rightarrow>
               (case opt_prop rt choice ''message'' of
                  Inl e \<Rightarrow> Inl e
                | Inr msg \<Rightarrow> opt_prop rt msg ''content'')))"

text \<open>The \<open>try\<close> block of \<open>generateSummary\<close>.\<close>

definition generateSummary_try :: "world \<Rightarrow> string \<Rightarrow> jsval attempt \<times> run" where
  "generateSummary_try w text =
     (case do_fetch w start (summary_request w text) of
        (NetworkFailure e, r) \<Rightarrow> (Inl e, r)
      | (Response resp, r) \<Rightarrow>
          if \<not> ok resp then
            (case text_of resp of
               Inl e \<Rightarrow> (Inl e, r)
             | Inr errorText \<Rightarrow>
                 (Inl (JsError ''Error'' (''Summary generation failed: '' @ decimal (status resp))), r))
          else
            (case json_of resp of
               Inl e \<Rightarrow> (Inl e, r)
             | Inr data \<Rightarrow>
                 (case first_content (engine w) data of
                    Inl e \<Rightarrow> (Inl e, r)
                  | Inr content \<Rightarrow> (Inr (js_or content (JStr ''No summary generated'')), r))))"

text \<open>
  \<open>generateSummary\<close>: the \<open>catch\<close> block stores the message, clears the flag and returns
  the second literal.
\<close>

definition generateSummary ::
  "world \<Rightarrow> summary_state \<Rightarrow> string \<Rightarrow> jsval settled \<times> summary_state \<times> run" where
  "generateSummary w hs text =
     (let hs1 = hs\<lparr>isGeneratingSummary := True, summary_error := None\<rparr> in
      case generateSummary_try w text of
        (Inr summary, r) \<Rightarrow> (Resolved summary, hs1\<lparr>isGeneratingSummary := False\<rparr>, r)
      | (Inl err, r) \<Rightarrow>
          (Resolved (JStr ''Failed to generate summary. Please try again.''),
           hs1\<lparr>summary_error := Some (message_or ''Summary generation failed'' err),
                isGeneratingSummary := False\<rparr>,
           r))"

subsection \<open>Scenarios and scripted worlds of a summary\<close>

text \<open>The endpoint answers the request with a success status and the JSON body \<open>data\<close>.\<close>

definition completion_received :: "world \<Rightarrow> string \<Rightarrow> jsval \<Rightarrow> bool" where
  "completion_received w text data =
     (case fetch w 0 (summary_request w text) of
        NetworkFailure e \<Rightarrow> False
      | Response resp \<Rightarrow> ok resp \<and> json_of resp = Inr data)"

definition completion_refused :: "world \<Rightarrow> string \<Rightarrow> bool" where
  "completion_refused w text =
     (case fetch w 0 (summary_request w text) of
        NetworkFailure e \<Rightarrow> False
      | Response resp \<Rightarrow> \<not> ok resp)"

definition is_nonempty_string :: "jsval \<Rightarrow> bool" where
  "is_nonempty_string v = (case v of JStr s \<Rightarrow> s \<noteq> [] | _ \<Rightarrow> False)"

definition completion :: "jsval \<Rightarrow> jsval" where
  "completion content = JObj [(''choices'', JArr [JObj [(''message'', JObj [(''content'', content)])]])]"

definition summary_idle :: summary_state where
  "summary_idle = \<lparr>isGeneratingSummary = False, summary_error = None\<rparr>"

definition fox_world :: world where
  "fox_world = scripted [json_response 200 (completion (JStr ''A fox jumps over a dog.''))]"

definition no_choices_world :: world where
  "no_choices_world = scripted [json_response 200 (JObj [(''choices'', JArr [])])]"

definition empty_text_world :: world where
  "empty_text_world = scripted [json_response 200 (completion (JStr []))]"

definition no_choices_key_world :: world where
  "no_choices_key_world = scripted [json_response 200 (JObj [(''id'', JStr ''gen-1'')])]"

definition rate_limited_world :: world where
  "rate_limited_world = scripted [text_response 429 ''slow down'']"

text \<open>An endpoint that sends the content as a list of parts instead of a string.\<close>

definition content_parts :: jsval where
  "content_parts = JArr [JObj [(''type'', JStr ''text''), (''text'', JStr ''A fox jumps over a dog.'')]]"

definition parts_world :: world where
  "parts_world = scripted [json_response 200 (completion content_parts)]"

section \<open>The persistence gateway (Express routes over the Recording model)\<close>

text \<open>
  A stored document of the \<open>Recording\<close> schema: two required strings and the creation
  date (milliseconds), with the identifier the store gives it. The version key, always 0,
  is left out.
\<close>

record recording_doc =
  doc_id :: string
  transcription :: string
  summary :: string
  createdAt :: int

text \<open>
  What the server takes from outside when a request is handled: the clock
  (\<open>Date.now\<close>, the default of \<open>createdAt\<close>), the identifier of the next document,
  whether the database operation fails, and how the schema casts a value that is not a
  string to the type \<open>String\<close> (\<open>None\<close> is a cast error).
\<close>

record server_env =
  server_engine :: runtime
  date_now :: int
  new_id :: string
  db_fails :: bool
  coerce :: "jsval \<Rightarrow> string option"

datatype reply_body = ErrorBody string | DocBody recording_doc | DocsBody "recording_doc list"

datatype reply = Reply (code: nat) (payload: reply_body)

definition cast_string :: "server_env \<Rightarrow> jsval \<Rightarrow> string option" where
  "cast_string env v = (case v of JStr s \<Rightarrow> Some s | _ \<Rightarrow> coerce env v)"

text \<open>
  \<open>Recording.create({transcription, summary})\<close>: the values are cast and validated
  (both paths are required, and a required string is not empty), then the document is
  inserted.
\<close>

definition create ::
  "server_env \<Rightarrow> jsval \<Rightarrow> jsval \<Rightarrow> recording_doc attempt" where
  "create env tr su =
     (case (cast_string env tr, cast_string env su) of
        (Some t, Some s) \<Rightarrow>
          if t = [] \<or> s = [] then Inl (JsError ''ValidationError'' ''Recording validation failed'')
          else if db_fails env then Inl (JsError ''MongoError'' ''insert failed'')
          else Inr \<lparr>doc_id = new_id env, transcription = t, summary = s, createdAt = date_now env\<rparr>
      | _ \<Rightarrow> Inl (JsError ''ValidationError'' ''Recording validation failed''))"

text \<open>
  \<open>app.post('/api/recordings')\<close>. The collection is the list of its documents in
  insertion order; the handler returns the reply and the collection afterwards.
  Destructuring a body that is \<open>null\<close> or \<open>undefined\<close> throws inside the \<open>try\<close>.
\<close>

definition post_recordings ::
  "server_env \<Rightarrow> recording_doc list \<Rightarrow> jsval \<Rightarrow> reply \<times> recording_doc list" where
  "post_recordings env docs req_body =
     (case get_prop (server_engine env) req_body ''transcription'' of
        Inl e \<Rightarrow> (Reply 500 (ErrorBody ''Failed to save recording''), docs)
      | Inr tr \<Rightarrow>
          (case get_prop (server_engine env) req_body ''summary'' of
             Inl e \<Rightarrow> (Reply 500 (ErrorBody ''Failed to save recording''), docs)
           | Inr su \<Rightarrow>
               if \<not> truthy tr \<or> \<not> truthy su then
                 (Reply 400 (ErrorBody ''transcription and summary are required''), docs)
               else
                 (case create env tr su of
                    Inl e \<Rightarrow> (Reply 500 (ErrorBody ''Failed to save recording''), docs)
                  | Inr doc \<Rightarrow> (Reply 201 (DocBody doc), docs @ [doc]))))"

text \<open>
  \<open>app.get('/api/recordings')\<close>: \<open>find().sort({createdAt: -1}).limit(100)\<close>. The store
  does not say in which order documents with the same date come; the model keeps their
  insertion order, and no statement below depends on it.
\<close>

definition get_recordings :: "server_env \<Rightarrow> recording_doc list \<Rightarrow> reply" where
  "get_recordings env docs =
     (if db_fails env then Reply 500 (ErrorBody ''Failed to fetch recordings'')
      else Reply 200 (DocsBody (take 100 (sort_key (\<lambda>d. - createdAt d) docs))))"

definition most_recent_first :: "recording_doc list \<Rightarrow> bool" where
  "most_recent_first ds = sorted_wrt (\<lambda>a b. createdAt b \<le> createdAt a) ds"

subsection \<open>A scripted server\<close>

definition test_server :: "int \<Rightarrow> server_env" where
  "test_server t =
     \<lparr>server_engine = test_engine, date_now = t, new_id = ''id-new'', db_fails = False,
      coerce = (\<lambda>v. None)\<rparr>"

definition old_docs :: "recording_doc list" where
  "old_docs =
     [\<lparr>doc_id = ''id-1'', transcription = ''first memo'', summary = ''one'', createdAt = 1000\<rparr>,
      \<lparr>doc_id = ''id-2'', transcription = ''second memo'', summary = ''two'', createdAt = 2000\<rparr>]"

section \<open>The audio capture adapter (useAudioRecording)\<close>

text \<open>
  The state of the hook: the native recording object (whose \<open>getURI()\<close> gives a string
  or \<open>null\<close>), the flag, the web recorder and the chunks it has delivered. The last field
  is not state of the hook but of the device: one entry for every microphone stream (web)
  or recorder (native) taken so far, in the order they were taken, true while its tracks
  are live or it is loaded. A web recorder knows its stream and a native recording its
  recorder by the position in this list; stopping one leaves the others as they are.
\<close>

datatype native_recording = Recording (handle: nat) (getURI: "string option")

datatype media_recorder = MediaRecorder (stream: nat) (mimeType: "string option")

record adapter =
  recording :: "native_recording option"
  isRecording :: bool
  mediaRecorderRef :: "media_recorder option"
  audioChunksRef :: "blob list"
  mic_holders :: "bool list"

text \<open>The microphone is held as long as one stream or recorder holds it.\<close>

definition device_held :: "adapter \<Rightarrow> bool" where
  "device_held st = (True \<in> set (mic_holders st))"

text \<open>
  What \<open>mediaRecorder.stop()\<close> does: it throws (a recorder that is no longer active, in
  browsers that follow the older specification), or the recorder delivers its last data
  and fires \<open>stop\<close>, or nothing happens and \<open>stop\<close> never fires.
\<close>

datatype stop_event = StopThrows js_error | StopFires "blob option" | StopSilent

text \<open>
  The platform, as the outcomes of the calls the hook makes. \<open>unloads_on_error\<close> says
  whether a failing \<open>stopAndUnloadAsync\<close> has released the recorder all the same, which
  is the library's business.
\<close>

record audio_env =
  os :: platform
  media_devices :: bool
  location_protocol :: string
  location_hostname :: string
  getUserMedia :: "unit attempt"
  webm_supported :: bool
  new_MediaRecorder :: "unit attempt"
  recorder_start :: "unit attempt"
  recorder_stop :: stop_event
  createObjectURL :: "blob \<Rightarrow> string attempt"
  requestPermissionsAsync :: "string attempt"
  setAudioModeAsync :: "unit attempt"
  createAsync :: "string option attempt"
  stopAndUnloadAsync :: "unit attempt"
  unloads_on_error :: bool

text \<open>The only action a button of this application carries: call \<open>handleStartRecording\<close>.\<close>

datatype action = HandleStartRecording

record button =
  label :: string
  onPress :: "action option"

datatype alert = Alert (title: string) (message: string) (buttons: "button list")

text \<open>The handler of \<open>dataavailable\<close>: a chunk is kept when its size is positive.\<close>

definition ondataavailable :: "blob \<Rightarrow> blob list \<Rightarrow> blob list" where
  "ondataavailable data chunks = (if blob_bytes data \<noteq> [] then chunks @ [data] else chunks)"

text \<open>\<open>new Blob(chunks, {type})\<close>\<close>

definition new_Blob :: "blob list \<Rightarrow> string \<Rightarrow> blob" where
  "new_Blob chunks ty = Blob (concat (map blob_bytes chunks)) ty"

text \<open>The message chosen by the \<open>catch\<close> block of \<open>startRecording\<close>.\<close>

definition start_error_message :: "js_error \<Rightarrow> string" where
  "start_error_message err =
     (case err of
        JsError name msg \<Rightarrow>
          if name = ''NotFoundError'' then
            ''No microphone found. Please connect a microphone and try again.''
          else if name = ''NotAllowedError'' then
            ''Microphone access denied. Please allow microphone access and try again.''
          else if name = ''NotSupportedError'' then
            ''Audio recording not supported in this browser.''
          else if name = ''NotReadableError'' then
            ''Microphone is already in use by another application.''
          else msg
      | Thrown v \<Rightarrow> ''Failed to start recording'')"

text \<open>
  The \<open>try\<close> block of \<open>startRecording\<close>. A successful \<open>getUserMedia\<close> or
  \<open>createAsync\<close> takes the microphone: a new holder is added, and it stays when the
  construction or the start of the web recorder fails afterwards.
\<close>

definition startRecording_try :: "audio_env \<Rightarrow> adapter \<Rightarrow> unit attempt \<times> adapter \<times> alert list" where
  "startRecording_try env st =
     (if os env = Web then
        if \<not> media_devices env then
          (Inl (JsError ''Error'' ''Media devices not supported in this browser''), st, [])
        else if location_protocol env \<noteq> ''https:'' \<and> location_hostname env \<noteq> ''localhost'' then
          (Inl (JsError ''Error'' ''Microphone access requires HTTPS or localhost''), st, [])
        else
          (case getUserMedia env of
             Inl e \<Rightarrow> (Inl e, st, [])
           | Inr u \<Rightarrow>
               (case new_MediaRecorder env of
                  Inl e \<Rightarrow> (Inl e, st\<lparr>mic_holders := mic_holders st @ [True]\<rparr>, [])
                | Inr u' \<Rightarrow>
                    let st1 = st\<lparr>mic_holders := mic_holders st @ [True],
                                mediaRecorderRef :=
                                  Some (MediaRecorder (length (mic_holders st))
                                          (if webm_supported env then Some ''audio/webm''
                                           else None)),
                                audioChunksRef := []\<rparr>
                    in (case recorder_start env of
                          Inl e \<Rightarrow> (Inl e, st1, [])
                        | Inr u'' \<Rightarrow> (Inr (), st1\<lparr>isRecording := True\<rparr>, []))))
      else
        (case requestPermissionsAsync env of
           Inl e \<Rightarrow> (Inl e, st, [])
         | Inr granted \<Rightarrow>
             if granted \<noteq> ''granted'' then
               (Inr (), st, [Alert ''Permission denied'' ''Audio recording permission is required'' []])
             else
               (case setAudioModeAsync env of
                  Inl e \<Rightarrow> (Inl e, st, [])
                | Inr u \<Rightarrow>
                    (case createAsync env of
                       Inl e \<Rightarrow> (Inl e, st, [])
                     | Inr uri \<Rightarrow>
                         (Inr (), st\<lparr>recording := Some (Recording (length (mic_holders st)) uri),
                                      isRecording := True,
                                      mic_holders := mic_holders st @ [True]\<rparr>, [])))))"

text \<open>
  \<open>startRecording\<close>: the \<open>catch\<close> block shows the message on the web and throws it
  again in a new \<open>Error\<close>.
\<close>

definition startRecording :: "audio_env \<Rightarrow> adapter \<Rightarrow> unit settled \<times> adapter \<times> alert list" where
  "startRecording env st =
     (case startRecording_try env st of
        (Inr u, st', alerts) \<Rightarrow> (Resolved (), st', alerts)
      | (Inl err, st', alerts) \<Rightarrow>
          (Rejected (JsError ''Error'' (start_error_message err)), st',
           alerts @ (if os env = Web then [Alert ''Recording Error'' (start_error_message err) []]
                     else [])))"

text \<open>
  \<open>stopRecording\<close>. On the web the function returns, without awaiting it, a promise
  that only the handler of \<open>stop\<close> resolves: an exception of \<open>mediaRecorder.stop()\<close>
  rejects that promise and does not reach the \<open>catch\<close> block, and the promise stays
  pending (\<open>None\<close>) when \<open>stop\<close> never fires or when the handler throws before it calls
  \<open>resolve\<close>. The tracks of the recorder's own stream are stopped in the handler,
  after the URL was created. On the
  native platforms every exception reaches the \<open>catch\<close> block, which clears the flag and
  returns \<open>null\<close>.
\<close>

definition stopRecording ::
  "audio_env \<Rightarrow> adapter \<Rightarrow> string option settled option \<times> adapter" where
  "stopRecording env st =
     (if os env = Web then
        (case mediaRecorderRef st of
           None \<Rightarrow> (Some (Resolved None), st)
         | Some mediaRecorder \<Rightarrow>
             (case recorder_stop env of
                StopThrows e \<Rightarrow> (Some (Rejected e), st)
              | StopSilent \<Rightarrow> (None, st)
              | StopFires last_data \<Rightarrow>
                  let st1 = (case last_data of
                               None \<Rightarrow> st
                             | Some data \<Rightarrow>
                                 st\<lparr>audioChunksRef := ondataavailable data (audioChunksRef st)\<rparr>)
                  in (case createObjectURL env (new_Blob (audioChunksRef st1) ''audio/webm'') of
                        Inl e \<Rightarrow> (None, st1)
                      | Inr audioUrl \<Rightarrow>
                          (Some (Resolved (Some audioUrl)),
                           st1\<lparr>mic_holders := (mic_holders st1)[stream mediaRecorder := False],
                                isRecording := False, mediaRecorderRef := None,
                                audioChunksRef := []\<rparr>))))
      else
        (case recording st of
           None \<Rightarrow> (Some (Resolved None), st)
         | Some rec \<Rightarrow>
             (case stopAndUnloadAsync env of
                Inl e \<Rightarrow>
                  (Some (Resolved None),
                   st\<lparr>mic_holders := (if unloads_on_error env
                                         then (mic_holders st)[handle rec := False]
                                         else mic_holders st),
                       isRecording := False\<rparr>)
              | Inr u \<Rightarrow>
                  (case setAudioModeAsync env of
                     Inl e \<Rightarrow>
                       (Some (Resolved None),
                        st\<lparr>mic_holders := (mic_holders st)[handle rec := False],
                            isRecording := False\<rparr>)
                   | Inr u' \<Rightarrow>
                       (Some (Resolved (getURI rec)),
                        st\<lparr>mic_holders := (mic_holders st)[handle rec := False],
                            recording := None, isRecording := False\<rparr>)))))"

text \<open>
  \<open>checkPermissions\<close>: a probe that takes the microphone and lets it go at once, so the
  device is as it was; the promise resolves to a boolean in every case.
\<close>

text \<open>
  The holder of the recorder that \<open>stopRecording\<close> would stop, and the condition that
  nothing else holds the microphone.
\<close>

definition current_holder :: "audio_env \<Rightarrow> adapter \<Rightarrow> nat option" where
  "current_holder env st =
     (if os env = Web then map_option stream (mediaRecorderRef st)
      else map_option handle (recording st))"

definition only_holder :: "nat \<Rightarrow> adapter \<Rightarrow> bool" where
  "only_holder h st = (\<forall>i<length (mic_holders st). mic_holders st ! i \<longrightarrow> i = h)"

definition checkPermissions :: "audio_env \<Rightarrow> bool" where
  "checkPermissions env =
     (if os env = Web then
        if \<not> media_devices env then False
        else if location_protocol env \<noteq> ''https:'' \<and> location_hostname env \<noteq> ''localhost'' then False
        else (case getUserMedia env of Inl err \<Rightarrow> False | Inr u \<Rightarrow> True)
      else
        (case requestPermissionsAsync env of
           Inl e \<Rightarrow> False
         | Inr granted \<Rightarrow> granted = ''granted''))"

section \<open>The session coordinator (VoiceRecorderScreen)\<close>

record screen =
  screen_isRecording :: bool
  recordingDuration :: nat
  transcribedText :: string
  screen_summary :: string
  fadeAnim :: rat

definition permission_alert :: alert where
  "permission_alert =
     Alert ''Permission Required''
       (''Microphone access is required to record audio. '' @
        ''Please allow microphone access in your browser settings and try again.'')
       [\<lparr>label = ''OK'', onPress = None\<rparr>, \<lparr>label = ''Retry'', onPress = Some HandleStartRecording\<rparr>]"

text \<open>
  \<open>handleStartRecording\<close>. \<open>probe\<close> is the platform as \<open>checkPermissions\<close> finds it,
  \<open>env\<close> the platform as \<open>startRecording\<close> finds it afterwards. The result is
  the state of the screen, the state of the adapter and the alerts shown.
\<close>

definition handleStartRecording ::
  "audio_env \<Rightarrow> audio_env \<Rightarrow> screen \<Rightarrow> adapter \<Rightarrow> screen \<times> adapter \<times> alert list" where
  "handleStartRecording probe env scr st =
     (let hasPermission = checkPermissions probe in
      if \<not> hasPermission then (scr, st, [permission_alert])
      else
        (case startRecording env st of
           (Resolved u, st', alerts) \<Rightarrow>
             (scr\<lparr>screen_isRecording := True, recordingDuration := 0, transcribedText := [],
                   screen_summary := [], fadeAnim := 0\<rparr>, st', alerts)
         | (Rejected err, st', alerts) \<Rightarrow>
             (scr, st',
              alerts @ [Alert ''Recording Error''
                          (message_or ''Failed to start recording. Please check permissions.'' err) []])))"

text \<open>Pressing a button of an alert runs its action, if it has one.\<close>

definition press ::
  "button \<Rightarrow> audio_env \<Rightarrow> audio_env \<Rightarrow> screen \<Rightarrow> adapter \<Rightarrow> screen \<times> adapter \<times> alert list" where
  "press b probe env scr st =
     (case onPress b of
        None \<Rightarrow> (scr, st, [])
      | Some HandleStartRecording \<Rightarrow> handleStartRecording probe env scr st)"

subsection \<open>Scripted platforms\<close>

definition browser :: audio_env where
  "browser =
     \<lparr>os = Web, media_devices = True, location_protocol = ''https:'',
      location_hostname = ''memo.example'', getUserMedia = Inr (), webm_supported = True,
      new_MediaRecorder = Inr (), recorder_start = Inr (),
      recorder_stop = StopFires (Some (Blob [3, 4] ''audio/webm'')),
      createObjectURL = (\<lambda>b. Inr ''blob:https://memo.example/1''),
      requestPermissionsAsync = Inr ''granted'', setAudioModeAsync = Inr (),
      createAsync = Inr (Some ''file:///rec.m4a''), stopAndUnloadAsync = Inr (),
      unloads_on_error = True\<rparr>"

definition phone :: audio_env where
  "phone = browser\<lparr>os := Ios\<rparr>"

definition recording_web :: adapter where
  "recording_web =
     \<lparr>recording = None, isRecording = True,
      mediaRecorderRef = Some (MediaRecorder 0 (Some ''audio/webm'')),
      audioChunksRef = [Blob [1, 2] ''audio/webm''], mic_holders = [True]\<rparr>"

definition recording_native :: adapter where
  "recording_native =
     \<lparr>recording = Some (Recording 0 (Some ''file:///rec.m4a'')), isRecording = True,
      mediaRecorderRef = None, audioChunksRef = [], mic_holders = [True]\<rparr>"

definition adapter_idle :: adapter where
  "adapter_idle =
     \<lparr>recording = None, isRecording = False, mediaRecorderRef = None, audioChunksRef = [],
      mic_holders = []\<rparr>"

definition screen_idle :: screen where
  "screen_idle =
     \<lparr>screen_isRecording = False, recordingDuration = 0, transcribedText = [],
      screen_summary = [], fadeAnim = 0\<rparr>"

definition stale_browser :: audio_env where
  "stale_browser =
     browser\<lparr>recorder_stop := StopThrows (JsError ''InvalidStateError'' ''The MediaRecorder is inactive'')\<rparr>"

definition no_url_browser :: audio_env where
  "no_url_browser =
     browser\<lparr>createObjectURL := (\<lambda>b. Inl (JsError ''TypeError'' ''createObjectURL failed''))\<rparr>"

definition denied_browser :: audio_env where
  "denied_browser = browser\<lparr>getUserMedia := Inl (JsError ''NotAllowedError'' ''Permission denied'')\<rparr>"

definition denied_phone :: audio_env where
  "denied_phone = phone\<lparr>requestPermissionsAsync := Inr ''denied''\<rparr>"

definition busy_phone :: audio_env where
  "busy_phone = phone\<lparr>stopAndUnloadAsync := Inl (JsError ''Error'' ''Stop encountered an error'')\<rparr>"

text \<open>
  A browser in which the recorder cannot be constructed, and a recording started after a
  start that failed there: the stream of the failed start is still live.
\<close>

definition broken_browser :: audio_env where
  "broken_browser =
     browser\<lparr>new_MediaRecorder := Inl (JsError ''NotSupportedError'' ''mimeType not supported'')\<rparr>"

definition second_recording :: adapter where
  "second_recording =
     \<lparr>recording = None, isRecording = True,
      mediaRecorderRef = Some (MediaRecorder 1 (Some ''audio/webm'')),
      audioChunksRef = [], mic_holders = [True, True]\<rparr>"

section \<open>Properties of the transcription client\<close>

















subsection \<open>The scripted worlds\<close>

lemmas scripted_defs =
  scripted_def audio_response_def uploaded_def json_response_def text_response_def
  audio_read_def audio_unreadable_def upload_accepted_def upload_refused_def job_submitted_def
  submit_refused_def poll_gives_def ok_def get_prop_def nullish_def job_def pending_def
  has_status_def test_engine_def








section \<open>Properties of the summarization client\<close>

lemma generateSummary_run:
  "snd (generateSummary_try w text) = \<lparr>calls = 1, trace = [Fetch (summary_request w text)]\<rparr>"
  by (simp add: generateSummary_try_def do_fetch_def start_def
        split: fetch_result.splits sum.splits)

lemma generateSummary_try_received:
  assumes "completion_received w text data"
  shows "fst (generateSummary_try w text) =
         (case first_content (engine w) data of
            Inl e \<Rightarrow> Inl e
          | Inr content \<Rightarrow> Inr (js_or content (JStr ''No summary generated'')))"
proof -
  obtain resp where "fetch w 0 (summary_request w text) = Response resp" "ok resp"
      "json_of resp = Inr data"
    using assms by (auto simp: completion_received_def split: fetch_result.splits)
  then show ?thesis
    by (cases "first_content (engine w) data")
       (simp_all add: generateSummary_try_def do_fetch_def start_def)
qed

lemma generateSummary_try_refused:
  assumes "completion_refused w text"
  shows "\<exists>e. fst (generateSummary_try w text) = Inl e"
proof -
  obtain resp where "fetch w 0 (summary_request w text) = Response resp" "\<not> ok resp"
    using assms by (auto simp: completion_refused_def split: fetch_result.splits)
  then show ?thesis
    by (cases "text_of resp") (simp_all add: generateSummary_try_def do_fetch_def start_def)
qed

lemma generateSummary_thrown:
  assumes "fst (generateSummary_try w text) = Inl e"
  shows "generateSummary w hs text =
         (Resolved (JStr ''Failed to generate summary. Please try again.''),
          hs\<lparr>isGeneratingSummary := False,
               summary_error := Some (message_or ''Summary generation failed'' e)\<rparr>,
          \<lparr>calls = 1, trace = [Fetch (summary_request w text)]\<rparr>)"
  using assms generateSummary_run [of w "text"]
  by (cases "generateSummary_try w text") (simp add: generateSummary_def)

lemma generateSummary_returned:
  assumes "fst (generateSummary_try w text) = Inr v"
  shows "generateSummary w hs text =
         (Resolved v, hs\<lparr>isGeneratingSummary := False, summary_error := None\<rparr>,
          \<lparr>calls = 1, trace = [Fetch (summary_request w text)]\<rparr>)"
  using assms generateSummary_run [of w "text"]
  by (cases "generateSummary_try w text") (simp add: generateSummary_def)

lemma first_content_empty_choices:
  assumes "get_prop rt data ''choices'' = Inr (JArr [])"
  shows "first_content rt data = Inr JUndefined"
  using assms by (simp add: first_content_def get_first_def opt_prop_def nullish_def)

lemma first_content_no_choices:
  assumes "get_prop rt data ''choices'' = Inr JUndefined"
  shows "\<exists>e. first_content rt data = Inl e"
  using assms by (simp add: first_content_def get_first_def nullish_def)

lemma truthy_js_or: "truthy d \<Longrightarrow> truthy (js_or v d)"
  by (simp add: js_or_def)

lemmas summary_defs =
  completion_received_def completion_refused_def summary_request_def completion_def
  first_content_def get_first_def opt_prop_def

section \<open>Properties of the persistence gateway\<close>

lemma foldr_insort_front:
  fixes f :: "'a \<Rightarrow> int"
  assumes "\<forall>y\<in>set ys. f x < f y"
  shows "foldr (insort_key f) ys (x # xs) = x # foldr (insort_key f) ys xs"
  using assms by (induction ys) simp_all

lemma sort_key_snoc_least:
  fixes f :: "'a \<Rightarrow> int"
  assumes "\<forall>y\<in>set ys. f x < f y"
  shows "sort_key f (ys @ [x]) = x # sort_key f ys"
  using foldr_insort_front [OF assms, of "[]"] by (simp add: sort_key_def)

lemma most_recent_first_sort:
  "most_recent_first (sort_key (\<lambda>d. - createdAt d) docs)"
proof -
  have "sorted (map (\<lambda>d. - createdAt d) (sort_key (\<lambda>d. - createdAt d) docs))"
    by (rule sorted_sort_key)
  then show ?thesis
    by (simp add: most_recent_first_def sorted_map)
qed

lemma most_recent_first_take:
  "most_recent_first ds \<Longrightarrow> most_recent_first (take n ds)"
  unfolding most_recent_first_def by (rule sorted_wrt_take)

lemma post_recordings_stores:
  assumes "get_prop (server_engine env) req_body ''transcription'' = Inr (JStr t)"
    and "get_prop (server_engine env) req_body ''summary'' = Inr (JStr s)"
    and "t \<noteq> []" and "s \<noteq> []" and "\<not> db_fails env"
  shows "post_recordings env docs req_body =
         (Reply 201 (DocBody \<lparr>doc_id = new_id env, transcription = t, summary = s,
                                createdAt = date_now env\<rparr>),
          docs @ [\<lparr>doc_id = new_id env, transcription = t, summary = s,
                    createdAt = date_now env\<rparr>])"
  using assms by (simp add: post_recordings_def create_def cast_string_def)

lemma get_recordings_listing:
  assumes "\<not> db_fails env"
  shows "\<exists>l. get_recordings env ds = Reply 200 (DocsBody l) \<and> most_recent_first l \<and>
             length l = min 100 (length ds) \<and> set l \<subseteq> set ds"
proof -
  let ?l = "take 100 (sort_key (\<lambda>d. - createdAt d) ds)"
  have "most_recent_first ?l"
    by (intro most_recent_first_take most_recent_first_sort)
  moreover have "length ?l = min 100 (length ds)" by simp
  moreover have "set ?l \<subseteq> set ds"
    using set_take_subset [of 100 "sort_key (\<lambda>d. - createdAt d) ds"] by simp
  ultimately show ?thesis using assms by (simp add: get_recordings_def)
qed

section \<open>Properties of the audio capture adapter\<close>

lemma stopRecording_no_recorder:
  assumes "os env = Web \<and> mediaRecorderRef st = None \<or> os env \<noteq> Web \<and> recording st = None"
  shows "stopRecording env st = (Some (Resolved None), st)"
  using assms by (auto simp: stopRecording_def)

lemma stopRecording_web:
  assumes "os env = Web" and "mediaRecorderRef st = Some mr"
    and "recorder_stop env = StopFires last_data"
    and "createObjectURL env
           (new_Blob (case last_data of None \<Rightarrow> audioChunksRef st
                      | Some data \<Rightarrow> ondataavailable data (audioChunksRef st)) ''audio/webm'') =
         Inr audioUrl"
  shows "stopRecording env st =
         (Some (Resolved (Some audioUrl)),
          st\<lparr>mic_holders := (mic_holders st)[stream mr := False], isRecording := False,
              mediaRecorderRef := None, audioChunksRef := []\<rparr>)"
  using assms by (cases last_data) (simp_all add: stopRecording_def)

lemma stopRecording_native_done:
  assumes "os env \<noteq> Web" and "recording st = Some rec"
    and "stopAndUnloadAsync env = Inr ()" and "setAudioModeAsync env = Inr ()"
  shows "stopRecording env st =
         (Some (Resolved (getURI rec)),
          st\<lparr>mic_holders := (mic_holders st)[handle rec := False], recording := None,
              isRecording := False\<rparr>)"
  using assms by (simp add: stopRecording_def)

lemma stopRecording_native_mode_fails:
  assumes "os env \<noteq> Web" and "recording st = Some rec"
    and "stopAndUnloadAsync env = Inr ()" and "setAudioModeAsync env = Inl e"
  shows "stopRecording env st =
         (Some (Resolved None),
          st\<lparr>mic_holders := (mic_holders st)[handle rec := False], isRecording := False\<rparr>)"
  using assms by (simp add: stopRecording_def)

lemma stopRecording_native_stop_fails:
  assumes "os env \<noteq> Web" and "recording st = Some rec" and "stopAndUnloadAsync env = Inl e"
  shows "stopRecording env st =
         (Some (Resolved None),
          st\<lparr>mic_holders := (if unloads_on_error env then (mic_holders st)[handle rec := False]
                               else mic_holders st),
              isRecording := False\<rparr>)"
  using assms by (simp add: stopRecording_def)

lemma released_only_holder:
  assumes "only_holder h st" and "mic_holders st' = (mic_holders st)[h := False]"
  shows "\<not> device_held st'"
proof
  assume "device_held st'"
  then obtain i where i: "i < length (mic_holders st)" "(mic_holders st)[h := False] ! i"
    using assms(2) by (auto simp: device_held_def in_set_conv_nth)
  then have "i \<noteq> h" by auto
  moreover from i this have "mic_holders st ! i" by simp
  ultimately show False using assms(1) i(1) by (simp add: only_holder_def)
qed

lemma stopRecording_reference:
  assumes "stopRecording env st = (Some (Resolved (Some ref)), st')"
  shows "\<not> isRecording st' \<and>
         (\<exists>h. current_holder env st = Some h \<and> mic_holders st' = (mic_holders st)[h := False] \<and>
              (only_holder h st \<longrightarrow> \<not> device_held st'))"
proof -
  have "\<not> isRecording st' \<and>
        (\<exists>h. current_holder env st = Some h \<and> mic_holders st' = (mic_holders st)[h := False])"
  proof (cases "os env = Web")
    case True
    with assms show ?thesis
      by (auto simp: stopRecording_def current_holder_def Let_def
            split: option.splits stop_event.splits sum.splits)
  next
    case False
    with assms show ?thesis
      by (auto simp: stopRecording_def current_holder_def split: option.splits sum.splits if_splits)
  qed
  then show ?thesis using released_only_holder by blast
qed

lemma second_recording_reached:
  "fst (snd (startRecording browser (fst (snd (startRecording broken_browser adapter_idle))))) =
   second_recording"
  by (simp add: startRecording_def startRecording_try_def broken_browser_def browser_def
        adapter_idle_def second_recording_def)

section \<open>Claims about the transcription client\<close>








section \<open>Claims about the summarization client\<close>

text \<open>
  C4. A response with a success status but no first completion text makes
  \<open>generateSummary\<close> return a literal string instead of failing: an empty \<open>choices\<close>
  array, and more generally any first content that is missing or falsy (\<open>undefined\<close>,
  \<open>null\<close>, the empty string), gives "No summary generated" with no error stored. A body
  with no \<open>choices\<close> property at all also gives a literal string, the one of the
  \<open>catch\<close> block.
\<close>

theorem generateSummary_placeholder:
  "(completion_received w text data \<and> get_prop (engine w) data ''choices'' = Inr (JArr []) \<longrightarrow>
      generateSummary w hs text =
        (Resolved (JStr ''No summary generated''),
         hs\<lparr>isGeneratingSummary := False, summary_error := None\<rparr>,
         \<lparr>calls = 1, trace = [Fetch (summary_request w text)]\<rparr>)) \<and>
   (completion_received w text data \<and> first_content (engine w) data = Inr v \<and> \<not> truthy v \<longrightarrow>
      generateSummary w hs text =
        (Resolved (JStr ''No summary generated''),
         hs\<lparr>isGeneratingSummary := False, summary_error := None\<rparr>,
         \<lparr>calls = 1, trace = [Fetch (summary_request w text)]\<rparr>)) \<and>
   (completion_received w text data \<and> get_prop (engine w) data ''choices'' = Inr JUndefined \<longrightarrow>
      fst (generateSummary w hs text) =
        Resolved (JStr ''Failed to generate summary. Please try again.''))"
proof (intro conjI impI; elim conjE)
  assume a: "completion_received w text data" "get_prop (engine w) data ''choices'' = Inr (JArr [])"
  have "fst (generateSummary_try w text) = Inr (JStr ''No summary generated'')"
    using generateSummary_try_received [OF a(1)] first_content_empty_choices [OF a(2)]
    by (simp add: js_or_def)
  then show "generateSummary w hs text =
        (Resolved (JStr ''No summary generated''),
         hs\<lparr>isGeneratingSummary := False, summary_error := None\<rparr>,
         \<lparr>calls = 1, trace = [Fetch (summary_request w text)]\<rparr>)"
    by (rule generateSummary_returned)
next
  assume a: "completion_received w text data" "first_content (engine w) data = Inr v" "\<not> truthy v"
  have "fst (generateSummary_try w text) = Inr (JStr ''No summary generated'')"
    using generateSummary_try_received [OF a(1)] a(2,3) by (simp add: js_or_def)
  then show "generateSummary w hs text =
        (Resolved (JStr ''No summary generated''),
         hs\<lparr>isGeneratingSummary := False, summary_error := None\<rparr>,
         \<lparr>calls = 1, trace = [Fetch (summary_request w text)]\<rparr>)"
    by (rule generateSummary_returned)
next
  assume a: "completion_received w text data" "get_prop (engine w) data ''choices'' = Inr JUndefined"
  from first_content_no_choices [OF a(2)] generateSummary_try_received [OF a(1)]
  obtain e where "fst (generateSummary_try w text) = Inl e" by auto
  from generateSummary_thrown [OF this]
  show "fst (generateSummary w hs text) =
        Resolved (JStr ''Failed to generate summary. Please try again.'')"
    by simp
qed

theorem generateSummary_placeholder_witness:
  "generateSummary no_choices_world summary_idle ''The quick brown fox...'' =
     (Resolved (JStr ''No summary generated''), summary_idle,
      \<lparr>calls = 1, trace = [Fetch (summary_request no_choices_world ''The quick brown fox...'')]\<rparr>) \<and>
   generateSummary empty_text_world summary_idle ''The quick brown fox...'' =
     (Resolved (JStr ''No summary generated''), summary_idle,
      \<lparr>calls = 1, trace = [Fetch (summary_request empty_text_world ''The quick brown fox...'')]\<rparr>) \<and>
   fst (generateSummary no_choices_key_world summary_idle ''The quick brown fox...'') =
     Resolved (JStr ''Failed to generate summary. Please try again.'')"
proof -
  note main = generateSummary_placeholder
  have 1: "completion_received no_choices_world ''The quick brown fox...'' (JObj [(''choices'', JArr [])]) \<and>
        get_prop (engine no_choices_world) (JObj [(''choices'', JArr [])]) ''choices'' = Inr (JArr [])"
    by (simp add: no_choices_world_def scripted_defs summary_defs)
  have 2: "completion_received empty_text_world ''The quick brown fox...'' (completion (JStr [])) \<and>
        first_content (engine empty_text_world) (completion (JStr [])) = Inr (JStr []) \<and>
        \<not> truthy (JStr [])"
    by (simp add: empty_text_world_def scripted_defs summary_defs)
  have 3: "completion_received no_choices_key_world ''The quick brown fox...'' (JObj [(''id'', JStr ''gen-1'')]) \<and>
        get_prop (engine no_choices_key_world) (JObj [(''id'', JStr ''gen-1'')]) ''choices'' = Inr JUndefined"
    by (simp add: no_choices_key_world_def scripted_defs summary_defs)
  from main [THEN conjunct1, rule_format, OF 1, of summary_idle]
       main [THEN conjunct2, THEN conjunct1, rule_format, OF 2, of summary_idle]
       main [THEN conjunct2, THEN conjunct2, rule_format, OF 3, of summary_idle]
  show ?thesis by (simp add: summary_idle_def)
qed

text \<open>
  C5, as stated, fails in its last part: a success response does not always make
  \<open>generateSummary\<close> return the completion text unchanged. The text goes through
  \<open>content || 'No summary generated'\<close>, and the empty string is falsy: when the
  endpoint answers with the empty completion text, the promise resolves to the placeholder.
\<close>

theorem generateSummary_empty_text_counterexample:
  "completion_received empty_text_world ''The quick brown fox...'' (completion (JStr [])) \<and>
   first_content (engine empty_text_world) (completion (JStr [])) = Inr (JStr []) \<and>
   fst (generateSummary empty_text_world summary_idle ''The quick brown fox...'') =
     Resolved (JStr ''No summary generated'') \<and>
   JStr ''No summary generated'' \<noteq> JStr []"
proof -
  have received: "completion_received empty_text_world ''The quick brown fox...'' (completion (JStr []))"
    by (simp add: empty_text_world_def scripted_defs summary_defs)
  have content: "first_content (engine empty_text_world) (completion (JStr [])) = Inr (JStr [])"
    by (simp add: empty_text_world_def scripted_defs summary_defs)
  from generateSummary_try_received [OF received] content
  have "fst (generateSummary_try empty_text_world ''The quick brown fox...'') =
        Inr (JStr ''No summary generated'')"
    by (simp add: js_or_def)
  from generateSummary_returned [OF this] received content show ?thesis
    by simp
qed

text \<open>
  C5, amended. Whatever the text and whatever the endpoint answers, \<open>generateSummary\<close>
  issues exactly one request: a POST to the chat-completion endpoint whose body holds
  exactly two messages, the fixed system instruction (which asks for 2-3 sentences) and a
  user message that is the fixed prefix followed by the text, with \<open>max_tokens\<close> 150 and
  \<open>temperature\<close> 0.3. When the endpoint answers with a success status and a first
  completion text that is not empty, the promise resolves to that text unchanged.
\<close>

theorem generateSummary_one_request_two_messages:
  "snd (snd (generateSummary w hs text)) =
     \<lparr>calls = 1,
      trace = [Fetch \<lparr>url = ''https://openrouter.ai/api/v1/chat/completions'',
                      http_method = ''POST'',
                      headers = [(''Content-Type'', ''application/json''),
                                 (''Authorization'', ''Bearer '' @ openrouter_key w)],
                      body = JsonBody (JObj
                        [(''model'', JStr ''openai/chatgpt-4o-latest''),
                         (''messages'',
                          JArr [JObj [(''role'', JStr ''system''),
                                      (''content'', JStr system_instruction)],
                                JObj [(''role'', JStr ''user''),
                                      (''content'',
                                       JStr (''Please summarize this text:'' @
                                             [CHR 0x0A, CHR 0x0A] @ text))]]),
                         (''max_tokens'', JNum 150),
                         (''temperature'', JNum (3 / 10))])\<rparr>]\<rparr> \<and>
   (completion_received w text data \<and> first_content (engine w) data = Inr (JStr s) \<and> s \<noteq> [] \<longrightarrow>
      fst (generateSummary w hs text) = Resolved (JStr s))"
proof (intro conjI impI; (elim conjE)?)
  have "snd (snd (generateSummary w hs text)) = snd (generateSummary_try w text)"
    by (cases "generateSummary_try w text"; cases "fst (generateSummary_try w text)")
       (simp_all add: generateSummary_def)
  then show "snd (snd (generateSummary w hs text)) =
     \<lparr>calls = 1,
      trace = [Fetch \<lparr>url = ''https://openrouter.ai/api/v1/chat/completions'',
                      http_method = ''POST'',
                      headers = [(''Content-Type'', ''application/json''),
                                 (''Authorization'', ''Bearer '' @ openrouter_key w)],
                      body = JsonBody (JObj
                        [(''model'', JStr ''openai/chatgpt-4o-latest''),
                         (''messages'',
                          JArr [JObj [(''role'', JStr ''system''),
                                      (''content'', JStr system_instruction)],
                                JObj [(''role'', JStr ''user''),
                                      (''content'',
                                       JStr (''Please summarize this text:'' @
                                             [CHR 0x0A, CHR 0x0A] @ text))]]),
                         (''max_tokens'', JNum 150),
                         (''temperature'', JNum (3 / 10))])\<rparr>]\<rparr>"
    by (simp add: generateSummary_run summary_request_def messages_def user_prompt_def)
next
  assume a: "completion_received w text data" "first_content (engine w) data = Inr (JStr s)" "s \<noteq> []"
  have "fst (generateSummary_try w text) = Inr (JStr s)"
    using generateSummary_try_received [OF a(1)] a(2,3) by (simp add: js_or_def)
  from generateSummary_returned [OF this]
  show "fst (generateSummary w hs text) = Resolved (JStr s)" by simp
qed

theorem fox_summary_verbatim:
  "snd (snd (generateSummary fox_world summary_idle ''The quick brown fox...'')) =
     \<lparr>calls = 1, trace = [Fetch (summary_request fox_world ''The quick brown fox...'')]\<rparr> \<and>
   fst (generateSummary fox_world summary_idle ''The quick brown fox...'') =
     Resolved (JStr ''A fox jumps over a dog.'')"
proof -
  note main = generateSummary_one_request_two_messages
  have sc: "completion_received fox_world ''The quick brown fox...'' (completion (JStr ''A fox jumps over a dog.'')) \<and>
        first_content (engine fox_world) (completion (JStr ''A fox jumps over a dog.'')) =
          Inr (JStr ''A fox jumps over a dog.'') \<and> ''A fox jumps over a dog.'' \<noteq> []"
    by (simp add: fox_world_def scripted_defs summary_defs)
  from main [THEN conjunct1, of fox_world summary_idle "''The quick brown fox...''"]
       main [THEN conjunct2, rule_format, OF sc, of summary_idle]
  show ?thesis by (simp add: summary_request_def messages_def user_prompt_def)
qed

text \<open>
  C10, as stated, fails: the promise does not always resolve to a string. The body of the
  response is typed \<open>any\<close> and is not validated, and a first content that is truthy but
  not a string is returned as it is: when the endpoint sends the content as a list of
  parts, the promise resolves to that list.
\<close>

theorem generateSummary_parts_counterexample:
  "fst (generateSummary parts_world summary_idle ''The quick brown fox...'') =
     Resolved (JArr [JObj [(''type'', JStr ''text''), (''text'', JStr ''A fox jumps over a dog.'')]]) \<and>
   \<not> is_nonempty_string
       (JArr [JObj [(''type'', JStr ''text''), (''text'', JStr ''A fox jumps over a dog.'')]])"
proof -
  have "completion_received parts_world ''The quick brown fox...'' (completion content_parts)"
    by (simp add: parts_world_def scripted_defs summary_defs)
  from generateSummary_try_received [OF this]
  have "fst (generateSummary_try parts_world ''The quick brown fox...'') = Inr content_parts"
    by (simp add: parts_world_def content_parts_def scripted_defs summary_defs js_or_def)
  from generateSummary_returned [OF this] show ?thesis
    by (simp add: is_nonempty_string_def content_parts_def)
qed

text \<open>
  C10, amended. The promise returned by \<open>generateSummary\<close> never rejects and resolves
  to a truthy value with the flag \<open>isGeneratingSummary\<close> cleared: the value is a
  non-empty string, or it is the first content the endpoint sent (so it is a non-empty
  string whenever that content is a string). Anything thrown in the \<open>try\<close> block,
  a non-success status and a body without a \<open>choices\<close> property included, gives
  "Failed to generate summary. Please try again."; an empty \<open>choices\<close> array gives
  "No summary generated".
\<close>

theorem generateSummary_never_rejects:
  "(\<exists>v. fst (generateSummary w hs text) = Resolved v \<and> truthy v \<and>
        (is_nonempty_string v \<or>
         (\<exists>data. completion_received w text data \<and> first_content (engine w) data = Inr v))) \<and>
   \<not> isGeneratingSummary (fst (snd (generateSummary w hs text))) \<and>
   (fst (generateSummary_try w text) = Inl e \<longrightarrow>
      fst (generateSummary w hs text) =
        Resolved (JStr ''Failed to generate summary. Please try again.'')) \<and>
   (completion_refused w text \<longrightarrow>
      fst (generateSummary w hs text) =
        Resolved (JStr ''Failed to generate summary. Please try again.'')) \<and>
   (completion_received w text (JObj kvs) \<and> map_of kvs ''choices'' = None \<longrightarrow>
      fst (generateSummary w hs text) =
        Resolved (JStr ''Failed to generate summary. Please try again.'')) \<and>
   (completion_received w text data \<and> get_prop (engine w) data ''choices'' = Inr (JArr []) \<longrightarrow>
      fst (generateSummary w hs text) = Resolved (JStr ''No summary generated'')) \<and>
   (completion_received w text data \<and> first_content (engine w) data = Inr (JStr s) \<longrightarrow>
      (\<exists>s'. s' \<noteq> [] \<and> fst (generateSummary w hs text) = Resolved (JStr s')))"
proof (intro conjI impI; (elim conjE)?)
  show "\<exists>v. fst (generateSummary w hs text) = Resolved v \<and> truthy v \<and>
        (is_nonempty_string v \<or>
         (\<exists>data. completion_received w text data \<and> first_content (engine w) data = Inr v))"
  proof (cases "fst (generateSummary_try w text)")
    case (Inl e)
    from generateSummary_thrown [OF this] show ?thesis
      by (simp add: is_nonempty_string_def)
  next
    case (Inr v)
    have "truthy v \<and> (is_nonempty_string v \<or>
         (\<exists>data. completion_received w text data \<and> first_content (engine w) data = Inr v))"
    proof (cases "fetch w 0 (summary_request w text)")
      case (NetworkFailure e)
      with Inr show ?thesis
        by (simp add: generateSummary_try_def do_fetch_def start_def)
    next
      case (Response resp)
      with Inr have okr: "ok resp"
        by (cases "ok resp"; cases "text_of resp")
           (simp_all add: generateSummary_try_def do_fetch_def start_def)
      with Inr Response obtain data where data: "json_of resp = Inr data"
        by (cases "json_of resp") (simp_all add: generateSummary_try_def do_fetch_def start_def)
      with okr Response have rec: "completion_received w text data"
        by (simp add: completion_received_def)
      from generateSummary_try_received [OF rec] Inr
      obtain content where c: "first_content (engine w) data = Inr content"
          "v = js_or content (JStr ''No summary generated'')"
        by (cases "first_content (engine w) data") simp_all
      show ?thesis
      proof (cases "truthy content")
        case True
        with c rec show ?thesis by (auto simp: js_or_def)
      next
        case False
        with c show ?thesis by (simp add: js_or_def is_nonempty_string_def)
      qed
    qed
    with generateSummary_returned [OF Inr] show ?thesis by simp
  qed
next
  show "\<not> isGeneratingSummary (fst (snd (generateSummary w hs text)))"
    by (cases "generateSummary_try w text"; cases "fst (generateSummary_try w text)")
       (simp_all add: generateSummary_def)
next
  assume "fst (generateSummary_try w text) = Inl e"
  from generateSummary_thrown [OF this]
  show "fst (generateSummary w hs text) =
        Resolved (JStr ''Failed to generate summary. Please try again.'')" by simp
next
  assume "completion_refused w text"
  from generateSummary_try_refused [OF this] obtain e where "fst (generateSummary_try w text) = Inl e" ..
  from generateSummary_thrown [OF this]
  show "fst (generateSummary w hs text) =
        Resolved (JStr ''Failed to generate summary. Please try again.'')" by simp
next
  assume a: "completion_received w text (JObj kvs)" "map_of kvs ''choices'' = None"
  from a(2) have "get_prop (engine w) (JObj kvs) ''choices'' = Inr JUndefined"
    by (simp add: get_prop_def nullish_def)
  from first_content_no_choices [OF this] generateSummary_try_received [OF a(1)]
  obtain e where "fst (generateSummary_try w text) = Inl e" by auto
  from generateSummary_thrown [OF this]
  show "fst (generateSummary w hs text) =
        Resolved (JStr ''Failed to generate summary. Please try again.'')" by simp
next
  assume a: "completion_received w text data" "get_prop (engine w) data ''choices'' = Inr (JArr [])"
  have "fst (generateSummary_try w text) = Inr (JStr ''No summary generated'')"
    using generateSummary_try_received [OF a(1)] first_content_empty_choices [OF a(2)]
    by (simp add: js_or_def)
  from generateSummary_returned [OF this]
  show "fst (generateSummary w hs text) = Resolved (JStr ''No summary generated'')" by simp
next
  assume a: "completion_received w text data" "first_content (engine w) data = Inr (JStr s)"
  have "fst (generateSummary_try w text) =
        Inr (if s = [] then JStr ''No summary generated'' else JStr s)"
    using generateSummary_try_received [OF a(1)] a(2) by (simp add: js_or_def)
  from generateSummary_returned [OF this]
  show "\<exists>s'. s' \<noteq> [] \<and> fst (generateSummary w hs text) = Resolved (JStr s')"
    by (cases "s = []") simp_all
qed

theorem generateSummary_never_rejects_witness:
  "fst (generateSummary offline summary_idle ''The quick brown fox...'') =
     Resolved (JStr ''Failed to generate summary. Please try again.'') \<and>
   fst (generateSummary rate_limited_world summary_idle ''The quick brown fox...'') =
     Resolved (JStr ''Failed to generate summary. Please try again.'') \<and>
   fst (generateSummary no_choices_key_world summary_idle ''The quick brown fox...'') =
     Resolved (JStr ''Failed to generate summary. Please try again.'') \<and>
   fst (generateSummary no_choices_world summary_idle ''The quick brown fox...'') =
     Resolved (JStr ''No summary generated'') \<and>
   (\<exists>s'. s' \<noteq> [] \<and>
      fst (generateSummary fox_world summary_idle ''The quick brown fox...'') = Resolved (JStr s'))"
proof -
  note main = generateSummary_never_rejects
  have 1: "fst (generateSummary_try offline ''The quick brown fox...'') =
           Inl (JsError ''TypeError'' ''Network request failed'')"
    by (simp add: generateSummary_try_def do_fetch_def start_def offline_def scripted_def)
  have 2: "completion_refused rate_limited_world ''The quick brown fox...''"
    by (simp add: rate_limited_world_def scripted_defs summary_defs)
  have 3: "completion_received no_choices_key_world ''The quick brown fox...'' (JObj [(''id'', JStr ''gen-1'')]) \<and>
           map_of [(''id'', JStr ''gen-1'')] ''choices'' = None"
    by (simp add: no_choices_key_world_def scripted_defs summary_defs)
  have 4: "completion_received no_choices_world ''The quick brown fox...'' (JObj [(''choices'', JArr [])]) \<and>
        get_prop (engine no_choices_world) (JObj [(''choices'', JArr [])]) ''choices'' = Inr (JArr [])"
    by (simp add: no_choices_world_def scripted_defs summary_defs)
  have 5: "completion_received fox_world ''The quick brown fox...'' (completion (JStr ''A fox jumps over a dog.'')) \<and>
        first_content (engine fox_world) (completion (JStr ''A fox jumps over a dog.'')) =
          Inr (JStr ''A fox jumps over a dog.'')"
    by (simp add: fox_world_def scripted_defs summary_defs)
  from main [THEN conjunct2, THEN conjunct2, THEN conjunct1, rule_format, OF 1, of summary_idle]
       main [THEN conjunct2, THEN conjunct2, THEN conjunct2, THEN conjunct1, rule_format, OF 2,
             of summary_idle]
       main [THEN conjunct2, THEN conjunct2, THEN conjunct2, THEN conjunct2, THEN conjunct1,
             rule_format, OF 3, of summary_idle]
       main [THEN conjunct2, THEN conjunct2, THEN conjunct2, THEN conjunct2, THEN conjunct2,
             THEN conjunct1, rule_format, OF 4, of summary_idle]
       main [THEN conjunct2, THEN conjunct2, THEN conjunct2, THEN conjunct2, THEN conjunct2,
             THEN conjunct2, rule_format, OF 5, of summary_idle]
  show ?thesis by blast
qed

section \<open>Claims about the persistence gateway\<close>

text \<open>
  C6. Posting a body whose \<open>transcription\<close> and \<open>summary\<close> are non-empty strings
  (\<open>{transcription: "t", summary: "s"}\<close> in the example that follows) is answered with
  201 and the stored document, which is added to the collection; the listing that follows
  has this document as its first entry. Any listing is ordered most recent first, has at
  most 100 entries (exactly the smaller of 100 and the size of the collection) and holds
  stored documents only. The database is taken to work, and the clock at the write to be
  later than the date of every stored document: with equal dates the store may return
  either document first.
\<close>

theorem post_then_list_round_trip:
  assumes "map_of kvs ''transcription'' = Some (JStr t)"
    and "map_of kvs ''summary'' = Some (JStr s)"
    and "t \<noteq> []" and "s \<noteq> []"
    and "\<not> db_fails env" and "\<not> db_fails env'"
    and "\<forall>d\<in>set docs. createdAt d < date_now env"
  shows "let new = \<lparr>doc_id = new_id env, transcription = t, summary = s, createdAt = date_now env\<rparr>
         in post_recordings env docs (JObj kvs) = (Reply 201 (DocBody new), docs @ [new]) \<and>
            (\<exists>rest. get_recordings env' (docs @ [new]) = Reply 200 (DocsBody (new # rest)) \<and>
                    most_recent_first (new # rest) \<and>
                    length (new # rest) = min 100 (length docs + 1) \<and>
                    set rest \<subseteq> set docs) \<and>
            (\<exists>l. get_recordings env' ds = Reply 200 (DocsBody l) \<and> most_recent_first l \<and>
                 length l = min 100 (length ds) \<and> set l \<subseteq> set ds)"
proof -
  define new where "new = \<lparr>doc_id = new_id env, transcription = t, summary = s, createdAt = date_now env\<rparr>"
  have post: "post_recordings env docs (JObj kvs) = (Reply 201 (DocBody new), docs @ [new])"
    unfolding new_def using assms(1-5)
    by (intro post_recordings_stores) (simp_all add: get_prop_def nullish_def)
  have "\<forall>d\<in>set docs. - createdAt new < - createdAt d"
    using assms(7) by (simp add: new_def)
  then have sorted: "sort_key (\<lambda>d. - createdAt d) (docs @ [new]) = new # sort_key (\<lambda>d. - createdAt d) docs"
    by (rule sort_key_snoc_least)
  let ?rest = "take 99 (sort_key (\<lambda>d. - createdAt d) docs)"
  have listing: "get_recordings env' (docs @ [new]) = Reply 200 (DocsBody (new # ?rest))"
    using assms(6) sorted by (simp add: get_recordings_def take_Cons')
  from get_recordings_listing [OF assms(6), of "docs @ [new]"] listing
  have "most_recent_first (new # ?rest)" "length (new # ?rest) = min 100 (length docs + 1)"
    by auto
  moreover have "set ?rest \<subseteq> set docs"
    using set_take_subset [of 99 "sort_key (\<lambda>d. - createdAt d) docs"] by simp
  ultimately show ?thesis
    using post listing get_recordings_listing [OF assms(6), of ds]
    unfolding Let_def new_def [symmetric] by blast
qed

theorem post_t_s_is_listed_first:
  "post_recordings (test_server 3000) old_docs
     (JObj [(''transcription'', JStr ''t''), (''summary'', JStr ''s'')]) =
     (Reply 201 (DocBody \<lparr>doc_id = ''id-new'', transcription = ''t'', summary = ''s'', createdAt = 3000\<rparr>),
      old_docs @ [\<lparr>doc_id = ''id-new'', transcription = ''t'', summary = ''s'', createdAt = 3000\<rparr>]) \<and>
   (\<exists>rest. get_recordings (test_server 4000)
             (old_docs @ [\<lparr>doc_id = ''id-new'', transcription = ''t'', summary = ''s'', createdAt = 3000\<rparr>]) =
           Reply 200 (DocsBody (\<lparr>doc_id = ''id-new'', transcription = ''t'', summary = ''s'',
                                  createdAt = 3000\<rparr> # rest)))"
proof -
  have "let new = \<lparr>doc_id = new_id (test_server 3000), transcription = ''t'', summary = ''s'',
                   createdAt = date_now (test_server 3000)\<rparr>
         in post_recordings (test_server 3000) old_docs
              (JObj [(''transcription'', JStr ''t''), (''summary'', JStr ''s'')]) =
              (Reply 201 (DocBody new), old_docs @ [new]) \<and>
            (\<exists>rest. get_recordings (test_server 4000) (old_docs @ [new]) = Reply 200 (DocsBody (new # rest)) \<and>
                    most_recent_first (new # rest) \<and>
                    length (new # rest) = min 100 (length old_docs + 1) \<and>
                    set rest \<subseteq> set old_docs) \<and>
            (\<exists>l. get_recordings (test_server 4000) old_docs = Reply 200 (DocsBody l) \<and>
                 most_recent_first l \<and> length l = min 100 (length old_docs) \<and>
                 set l \<subseteq> set old_docs)"
    by (rule post_then_list_round_trip) (simp_all add: test_server_def old_docs_def)
  then show ?thesis
    by (simp add: Let_def test_server_def) blast
qed




section \<open>Claims about the audio capture adapter and the coordinator\<close>

text \<open>
  C3, as stated, fails: \<open>stopRecording\<close> does not release the device on every exit
  path. It has no cleanup that runs on an error. On the web the tracks are stopped only in
  the handler of the recorder's \<open>stop\<close> event, after the URL was created: when
  \<open>mediaRecorder.stop()\<close> throws, the promise is rejected with the tracks still live,
  and when creating the URL fails, the tracks stay live and the promise never settles. On
  the native platforms the \<open>catch\<close> block clears the flag and returns \<open>null\<close> and
  releases nothing, so a recorder that a failing \<open>stopAndUnloadAsync\<close> left loaded
  stays loaded. And only the stream of the recorder that is stopped is released: after a
  start that failed once the microphone was taken, a later recording stops with its
  reference while the earlier stream still holds the device.
\<close>

theorem stopRecording_leaks_counterexample:
  "stopRecording stale_browser recording_web =
     (Some (Rejected (JsError ''InvalidStateError'' ''The MediaRecorder is inactive'')), recording_web) \<and>
   device_held recording_web \<and>
   stopRecording (busy_phone\<lparr>unloads_on_error := False\<rparr>) recording_native =
     (Some (Resolved None), recording_native\<lparr>isRecording := False\<rparr>) \<and>
   device_held (recording_native\<lparr>isRecording := False\<rparr>) \<and>
   stopRecording no_url_browser recording_web =
     (None, recording_web\<lparr>audioChunksRef := [Blob [1, 2] ''audio/webm'', Blob [3, 4] ''audio/webm'']\<rparr>) \<and>
   device_held (recording_web\<lparr>audioChunksRef := [Blob [1, 2] ''audio/webm'', Blob [3, 4] ''audio/webm'']\<rparr>) \<and>
   fst (snd (startRecording browser (fst (snd (startRecording broken_browser adapter_idle))))) =
     second_recording \<and>
   stopRecording browser second_recording =
     (Some (Resolved (Some ''blob:https://memo.example/1'')),
      \<lparr>recording = None, isRecording = False, mediaRecorderRef = None, audioChunksRef = [],
       mic_holders = [True, False]\<rparr>) \<and>
   device_held \<lparr>recording = None, isRecording = False, mediaRecorderRef = None, audioChunksRef = [],
                mic_holders = [True, False]\<rparr>"
  using second_recording_reached
  by (simp add: stopRecording_def stale_browser_def no_url_browser_def busy_phone_def phone_def
        browser_def recording_web_def recording_native_def second_recording_def
        ondataavailable_def device_held_def)

text \<open>
  C3, amended. On the path that succeeds \<open>stopRecording\<close> resolves to a reference to
  the recorded audio, having released the microphone that the stopped recorder held and
  cleared \<open>isRecording\<close>: on the web it resolves to the URL of the blob made of the
  chunks, the tracks of the recorder's stream being stopped in the handler of \<open>stop\<close>
  once the URL exists; on the native platforms it resolves to the URI of the recording
  (\<open>null\<close> when it has none), the recorder being unloaded by \<open>stopAndUnloadAsync\<close>.
  The device is then free whenever nothing else was holding it. With no active recorder
  the promise resolves to \<open>null\<close> and nothing changes. On the native platforms every
  error is caught: the promise resolves to \<open>null\<close> with the flag cleared, the recorder
  being released when \<open>stopAndUnloadAsync\<close> itself succeeded.
\<close>

theorem stopRecording_releases_when_it_succeeds:
  "(os env = Web \<and> mediaRecorderRef st = None \<or> os env \<noteq> Web \<and> recording st = None \<longrightarrow>
      stopRecording env st = (Some (Resolved None), st)) \<and>
   (os env = Web \<and> mediaRecorderRef st = Some mr \<and> recorder_stop env = StopFires last_data \<and>
    createObjectURL env
      (new_Blob (case last_data of None \<Rightarrow> audioChunksRef st
                 | Some data \<Rightarrow> ondataavailable data (audioChunksRef st)) ''audio/webm'') =
      Inr audioUrl \<longrightarrow>
      stopRecording env st =
        (Some (Resolved (Some audioUrl)),
         st\<lparr>mic_holders := (mic_holders st)[stream mr := False], isRecording := False,
             mediaRecorderRef := None, audioChunksRef := []\<rparr>)) \<and>
   (os env \<noteq> Web \<and> recording st = Some rec \<and> stopAndUnloadAsync env = Inr () \<and>
    setAudioModeAsync env = Inr () \<longrightarrow>
      stopRecording env st =
        (Some (Resolved (getURI rec)),
         st\<lparr>mic_holders := (mic_holders st)[handle rec := False], recording := None,
             isRecording := False\<rparr>)) \<and>
   (os env \<noteq> Web \<and> recording st = Some rec \<and> stopAndUnloadAsync env = Inr () \<and>
    setAudioModeAsync env = Inl e \<longrightarrow>
      stopRecording env st =
        (Some (Resolved None),
         st\<lparr>mic_holders := (mic_holders st)[handle rec := False], isRecording := False\<rparr>)) \<and>
   (os env \<noteq> Web \<and> recording st = Some rec \<and> stopAndUnloadAsync env = Inl e \<longrightarrow>
      stopRecording env st =
        (Some (Resolved None),
         st\<lparr>mic_holders := (if unloads_on_error env then (mic_holders st)[handle rec := False]
                              else mic_holders st),
             isRecording := False\<rparr>)) \<and>
   (stopRecording env st = (Some (Resolved (Some ref)), st') \<longrightarrow>
      \<not> isRecording st' \<and>
      (\<exists>h. current_holder env st = Some h \<and> mic_holders st' = (mic_holders st)[h := False] \<and>
           (only_holder h st \<longrightarrow> \<not> device_held st')))"
proof -
  have a: "os env = Web \<and> mediaRecorderRef st = None \<or> os env \<noteq> Web \<and> recording st = None \<longrightarrow>
      stopRecording env st = (Some (Resolved None), st)"
    using stopRecording_no_recorder [of env st] by blast
  have b: "os env = Web \<and> mediaRecorderRef st = Some mr \<and> recorder_stop env = StopFires last_data \<and>
    createObjectURL env
      (new_Blob (case last_data of None \<Rightarrow> audioChunksRef st
                 | Some data \<Rightarrow> ondataavailable data (audioChunksRef st)) ''audio/webm'') =
      Inr audioUrl \<longrightarrow>
      stopRecording env st =
        (Some (Resolved (Some audioUrl)),
         st\<lparr>mic_holders := (mic_holders st)[stream mr := False], isRecording := False,
             mediaRecorderRef := None, audioChunksRef := []\<rparr>)"
    using stopRecording_web [of env st mr last_data audioUrl] by blast
  have c: "os env \<noteq> Web \<and> recording st = Some rec \<and> stopAndUnloadAsync env = Inr () \<and>
    setAudioModeAsync env = Inr () \<longrightarrow>
      stopRecording env st =
        (Some (Resolved (getURI rec)),
         st\<lparr>mic_holders := (mic_holders st)[handle rec := False], recording := None,
             isRecording := False\<rparr>)"
    using stopRecording_native_done [of env st rec] by blast
  have d: "os env \<noteq> Web \<and> recording st = Some rec \<and> stopAndUnloadAsync env = Inr () \<and>
    setAudioModeAsync env = Inl e \<longrightarrow>
      stopRecording env st =
        (Some (Resolved None),
         st\<lparr>mic_holders := (mic_holders st)[handle rec := False], isRecording := False\<rparr>)"
    using stopRecording_native_mode_fails [of env st rec e] by blast
  have f: "os env \<noteq> Web \<and> recording st = Some rec \<and> stopAndUnloadAsync env = Inl e \<longrightarrow>
      stopRecording env st =
        (Some (Resolved None),
         st\<lparr>mic_holders := (if unloads_on_error env then (mic_holders st)[handle rec := False]
                              else mic_holders st),
             isRecording := False\<rparr>)"
    using stopRecording_native_stop_fails [of env st rec e] by blast
  have g: "stopRecording env st = (Some (Resolved (Some ref)), st') \<longrightarrow>
      \<not> isRecording st' \<and>
      (\<exists>h. current_holder env st = Some h \<and> mic_holders st' = (mic_holders st)[h := False] \<and>
           (only_holder h st \<longrightarrow> \<not> device_held st'))"
    using stopRecording_reference [of env st ref st'] by blast
  show ?thesis
    by (rule conjI [OF a conjI [OF b conjI [OF c conjI [OF d conjI [OF f g]]]]])
qed

theorem stopRecording_releases_witness:
  "stopRecording browser adapter_idle = (Some (Resolved None), adapter_idle) \<and>
   stopRecording phone adapter_idle = (Some (Resolved None), adapter_idle) \<and>
   stopRecording browser recording_web =
     (Some (Resolved (Some ''blob:https://memo.example/1'')),
      \<lparr>recording = None, isRecording = False, mediaRecorderRef = None, audioChunksRef = [],
       mic_holders = [False]\<rparr>) \<and>
   \<not> device_held \<lparr>recording = None, isRecording = False, mediaRecorderRef = None,
                  audioChunksRef = [], mic_holders = [False]\<rparr> \<and>
   stopRecording phone recording_native =
     (Some (Resolved (Some ''file:///rec.m4a'')),
      \<lparr>recording = None, isRecording = False, mediaRecorderRef = None, audioChunksRef = [],
       mic_holders = [False]\<rparr>) \<and>
   stopRecording (phone\<lparr>setAudioModeAsync := Inl (JsError ''Error'' ''audio mode'')\<rparr>) recording_native =
     (Some (Resolved None), recording_native\<lparr>mic_holders := [False], isRecording := False\<rparr>) \<and>
   stopRecording busy_phone recording_native =
     (Some (Resolved None), recording_native\<lparr>mic_holders := [False], isRecording := False\<rparr>)"
proof -
  note main = stopRecording_releases_when_it_succeeds
  have idle_web: "stopRecording browser adapter_idle = (Some (Resolved None), adapter_idle)"
    by (rule main [THEN conjunct1, rule_format]) (simp add: browser_def adapter_idle_def)
  have idle_phone: "stopRecording phone adapter_idle = (Some (Resolved None), adapter_idle)"
    by (rule main [THEN conjunct1, rule_format]) (simp add: phone_def browser_def adapter_idle_def)
  have web: "stopRecording browser recording_web =
      (Some (Resolved (Some ''blob:https://memo.example/1'')),
       recording_web\<lparr>mic_holders := (mic_holders recording_web)[stream (MediaRecorder 0 (Some ''audio/webm'')) := False],
          isRecording := False, mediaRecorderRef := None, audioChunksRef := []\<rparr>)"
    by (rule main [THEN conjunct2, THEN conjunct1, rule_format,
          where last_data = "Some (Blob [3, 4] ''audio/webm'')"])
       (simp add: browser_def recording_web_def)
  have only: "only_holder 0 recording_web"
    by (simp add: only_holder_def recording_web_def)
  from main [THEN conjunct2, THEN conjunct2, THEN conjunct2, THEN conjunct2, THEN conjunct2,
             rule_format, OF web]
  have freed: "\<not> device_held (recording_web\<lparr>mic_holders := (mic_holders recording_web)[stream (MediaRecorder 0 (Some ''audio/webm'')) := False],
          isRecording := False, mediaRecorderRef := None, audioChunksRef := []\<rparr>)"
    using only by (auto simp: current_holder_def browser_def recording_web_def)
  have native: "stopRecording phone recording_native =
      (Some (Resolved (getURI (Recording 0 (Some ''file:///rec.m4a'')))),
       recording_native\<lparr>mic_holders := (mic_holders recording_native)[handle (Recording 0 (Some ''file:///rec.m4a'')) := False],
          recording := None, isRecording := False\<rparr>)"
    by (rule main [THEN conjunct2, THEN conjunct2, THEN conjunct1, rule_format])
       (simp add: phone_def browser_def recording_native_def)
  have mode: "stopRecording (phone\<lparr>setAudioModeAsync := Inl (JsError ''Error'' ''audio mode'')\<rparr>) recording_native =
      (Some (Resolved None),
       recording_native\<lparr>mic_holders := (mic_holders recording_native)[handle (Recording 0 (Some ''file:///rec.m4a'')) := False],
          isRecording := False\<rparr>)"
    by (rule main [THEN conjunct2, THEN conjunct2, THEN conjunct2, THEN conjunct1, rule_format])
       (simp add: phone_def browser_def recording_native_def)
  have busy: "stopRecording busy_phone recording_native =
      (Some (Resolved None),
       recording_native\<lparr>mic_holders := (if unloads_on_error busy_phone
            then (mic_holders recording_native)[handle (Recording 0 (Some ''file:///rec.m4a'')) := False]
            else mic_holders recording_native),
          isRecording := False\<rparr>)"
    by (rule main [THEN conjunct2, THEN conjunct2, THEN conjunct2, THEN conjunct2, THEN conjunct1,
          rule_format])
       (simp add: busy_phone_def phone_def browser_def recording_native_def)
  from idle_web idle_phone web freed native mode busy show ?thesis
    by (simp add: recording_web_def recording_native_def busy_phone_def phone_def browser_def)
qed

text \<open>
  C8. When \<open>handleStartRecording\<close> runs and \<open>checkPermissions\<close> gives false, the
  state of the screen and the state of the adapter are what they were (so a coordinator
  that was idle stays idle, nothing is recorded and no session field changes), whatever
  the platform would have answered to \<open>startRecording\<close>, and the only thing shown is the
  alert "Permission Required" with the buttons OK and Retry; no error is raised or
  reported. Retry calls \<open>handleStartRecording\<close> again: pressed when the permission is
  granted and the recording starts, it puts the screen into recording.
\<close>

theorem permission_denied_stays_idle:
  "(\<not> checkPermissions probe \<longrightarrow>
      handleStartRecording probe env scr st =
        (scr, st,
         [Alert ''Permission Required''
            (''Microphone access is required to record audio. '' @
             ''Please allow microphone access in your browser settings and try again.'')
            [\<lparr>label = ''OK'', onPress = None\<rparr>,
             \<lparr>label = ''Retry'', onPress = Some HandleStartRecording\<rparr>]])) \<and>
   (checkPermissions probe' \<and> startRecording env' st = (Resolved (), st', alerts) \<longrightarrow>
      press \<lparr>label = ''Retry'', onPress = Some HandleStartRecording\<rparr> probe' env' scr st =
        (scr\<lparr>screen_isRecording := True, recordingDuration := 0, transcribedText := [],
              screen_summary := [], fadeAnim := 0\<rparr>, st', alerts))"
proof -
  have a: "\<not> checkPermissions probe \<longrightarrow>
      handleStartRecording probe env scr st =
        (scr, st,
         [Alert ''Permission Required''
            (''Microphone access is required to record audio. '' @
             ''Please allow microphone access in your browser settings and try again.'')
            [\<lparr>label = ''OK'', onPress = None\<rparr>,
             \<lparr>label = ''Retry'', onPress = Some HandleStartRecording\<rparr>]])"
    by (simp add: handleStartRecording_def permission_alert_def)
  have b: "checkPermissions probe' \<and> startRecording env' st = (Resolved (), st', alerts) \<longrightarrow>
      press \<lparr>label = ''Retry'', onPress = Some HandleStartRecording\<rparr> probe' env' scr st =
        (scr\<lparr>screen_isRecording := True, recordingDuration := 0, transcribedText := [],
              screen_summary := [], fadeAnim := 0\<rparr>, st', alerts)"
    by (simp add: press_def handleStartRecording_def)
  show ?thesis by (rule conjI [OF a b])
qed

theorem permission_denied_witness:
  "handleStartRecording denied_phone phone screen_idle adapter_idle =
     (screen_idle, adapter_idle, [permission_alert]) \<and>
   handleStartRecording denied_browser browser screen_idle adapter_idle =
     (screen_idle, adapter_idle, [permission_alert]) \<and>
   press \<lparr>label = ''Retry'', onPress = Some HandleStartRecording\<rparr> browser browser screen_idle adapter_idle =
     (screen_idle\<lparr>screen_isRecording := True\<rparr>,
      \<lparr>recording = None, isRecording = True,
       mediaRecorderRef = Some (MediaRecorder 0 (Some ''audio/webm'')), audioChunksRef = [],
       mic_holders = [True]\<rparr>, [])"
proof -
  note main = permission_denied_stays_idle
  have p: "\<not> checkPermissions denied_phone"
    by (simp add: checkPermissions_def denied_phone_def phone_def browser_def)
  have q: "\<not> checkPermissions denied_browser"
    by (simp add: checkPermissions_def denied_browser_def browser_def)
  have r: "checkPermissions browser \<and>
           startRecording browser adapter_idle =
             (Resolved (),
              \<lparr>recording = None, isRecording = True,
               mediaRecorderRef = Some (MediaRecorder 0 (Some ''audio/webm'')), audioChunksRef = [],
               mic_holders = [True]\<rparr>, [])"
    by (simp add: checkPermissions_def startRecording_def startRecording_try_def browser_def
          adapter_idle_def)
  from main [THEN conjunct1, rule_format, OF p, of phone screen_idle adapter_idle]
       main [THEN conjunct1, rule_format, OF q, of browser screen_idle adapter_idle]
       main [THEN conjunct2, rule_format, OF r, of screen_idle]
  show ?thesis by (simp add: permission_alert_def screen_idle_def)
qed

end
